theory Spec2Isabelle
  imports Complex_Main
begin

section \<open>Errors (src/utils/errors.ts)\<close>

text \<open>
  The four error classes of \<^verbatim>\<open>errors.ts\<close>. An instance carries the class it was
  constructed with (what \<^verbatim>\<open>instanceof\<close> tests) and the four fields the constructors set.
\<close>

datatype error_class =
  FanControlError | ValidationError | NetworkError | ConfigurationError

record fan_error =
  cls :: error_class
  message :: string
  name :: string
  code :: string
  statusCode :: int

definition FanControlError_new :: "string \<Rightarrow> fan_error" where
  "FanControlError_new msg =
     \<lparr>cls = FanControlError, message = msg, name = ''FanControlError'',
      code = ''FAN_CONTROL_ERROR'', statusCode = 500\<rparr>"

definition ValidationError_new :: "string \<Rightarrow> fan_error" where
  "ValidationError_new msg =
     \<lparr>cls = ValidationError, message = msg, name = ''ValidationError'',
      code = ''VALIDATION_ERROR'', statusCode = 400\<rparr>"

definition NetworkError_new :: "string \<Rightarrow> fan_error" where
  "NetworkError_new msg =
     \<lparr>cls = NetworkError, message = msg, name = ''NetworkError'',
      code = ''NETWORK_ERROR'', statusCode = 503\<rparr>"

datatype error_code =
  INVALID_SPEED | UDP_SEND_FAILED | INVALID_IP | INVALID_PORT | TIMEOUT | RETRY_EXHAUSTED

fun ERROR_MESSAGES :: "error_code \<Rightarrow> string" where
  "ERROR_MESSAGES INVALID_SPEED = ''Fan speed must be between 1 and 6''"
| "ERROR_MESSAGES UDP_SEND_FAILED = ''Failed to send UDP message to fan''"
| "ERROR_MESSAGES INVALID_IP = ''Invalid fan IP address''"
| "ERROR_MESSAGES INVALID_PORT = ''Invalid fan port number''"
| "ERROR_MESSAGES TIMEOUT = ''Operation timed out''"
| "ERROR_MESSAGES RETRY_EXHAUSTED = ''Maximum retry attempts exceeded''"

text \<open>
  What a \<^verbatim>\<open>catch\<close> clause can receive: the values \<^verbatim>\<open>undefined\<close> and \<^verbatim>\<open>null\<close>, an
  instance of one of the classes above, an \<^verbatim>\<open>Error\<close> of another origin (the socket's own
  errors, a \<^verbatim>\<open>TypeError\<close> of the runtime), of which only the message is kept, or any other
  value that is not an \<^verbatim>\<open>Error\<close> (a string, a number), given by the text that \<^verbatim>\<open>String\<close>
  makes of it.
\<close>

datatype thrown =
  Undefined | Null | FanError fan_error | ForeignError string | NonError string

fun instanceof_ValidationError :: "thrown \<Rightarrow> bool" where
  "instanceof_ValidationError (FanError e) = (cls e = ValidationError)"
| "instanceof_ValidationError _ = False"

text \<open>The expression \<^verbatim>\<open>error instanceof Error ? error.message : String(error)\<close>.\<close>

fun error_text :: "thrown \<Rightarrow> string" where
  "error_text Undefined = ''undefined''"
| "error_text Null = ''null''"
| "error_text (FanError e) = message e"
| "error_text (ForeignError m) = m"
| "error_text (NonError t) = t"

text \<open>
  Reading the property \<^verbatim>\<open>message\<close> of a caught value, as \<^verbatim>\<open>lastError.message\<close> does: on
  \<^verbatim>\<open>undefined\<close> and \<^verbatim>\<open>null\<close> the read itself throws a \<^verbatim>\<open>TypeError\<close>; on every other value
  it yields the property (or \<^verbatim>\<open>undefined\<close>) and throws nothing.
\<close>

fun message_access_error :: "thrown \<Rightarrow> thrown option" where
  "message_access_error Undefined =
     Some (ForeignError ''Cannot read properties of undefined (reading 'message')'')"
| "message_access_error Null =
     Some (ForeignError ''Cannot read properties of null (reading 'message')'')"
| "message_access_error _ = None"

section \<open>Numbers\<close>

text \<open>
  A JavaScript number is a finite value (every double is a rational, so the reals cover
  them), an infinity or NaN. Arithmetic on finite values is exact here: the rounding of
  doubles and their overflow to an infinity are outside the model.
\<close>

datatype js_number = Finite real | PosInfinity | NegInfinity | NaN

text \<open>
  The comparisons \<^verbatim>\<open>a <= x\<close> and \<^verbatim>\<open>a === x\<close> of an integer counter with a number: both
  are false when \<open>x\<close> is NaN.
\<close>

fun int_le_number :: "int \<Rightarrow> js_number \<Rightarrow> bool" where
  "int_le_number a (Finite r) = (of_int a \<le> r)"
| "int_le_number a PosInfinity = True"
| "int_le_number a _ = False"

fun int_eq_number :: "int \<Rightarrow> js_number \<Rightarrow> bool" where
  "int_eq_number a (Finite r) = (of_int a = r)"
| "int_eq_number a _ = False"

section \<open>The retry wrapper (src/service.ts, withRetry)\<close>

text \<open>
  An asynchronous operation is a function of the state it runs in: it settles to a
  rejection (\<open>Inl\<close>) or a value (\<open>Inr\<close>) and leaves a new state. What the wrapper itself
  does to the outside is recorded as a list of events: each call of \<^verbatim>\<open>operation()\<close> with
  the attempt number, and each \<^verbatim>\<open>setTimeout(resolve, delay)\<close> that is awaited.

  The logger calls return nothing, and only the evaluation of their arguments is kept:
  both \<^verbatim>\<open>logger.error\<close> and \<^verbatim>\<open>logger.warn\<close> are passed \<^verbatim>\<open>lastError.message\<close>, and that
  read throws when the operation rejected with \<^verbatim>\<open>undefined\<close> or \<^verbatim>\<open>null\<close>; the error leaves
  the \<^verbatim>\<open>catch\<close> block, and with it the wrapper, before the exhaustion error is thrown or
  the timer is set.

  \<^verbatim>\<open>maxRetries\<close> and \<^verbatim>\<open>baseDelay\<close> are declared \<^verbatim>\<open>number\<close>. \<^verbatim>\<open>maxRetries\<close> is any
  number here; \<^verbatim>\<open>baseDelay\<close> is a finite one. The counter \<^verbatim>\<open>attempt\<close> is an integer.
  With \<^verbatim>\<open>maxRetries\<close> infinite the loop is left only by a successful attempt or by the
  error of the message read, so the loop is a partial function: \<open>None\<close> is a run that
  never settles.
\<close>

datatype event = Attempt int | Delay real

text \<open>\<^verbatim>\<open>Math.pow(x, e)\<close> for an integer exponent.\<close>

definition Math_pow :: "real \<Rightarrow> int \<Rightarrow> real" where
  "Math_pow x e = (if 0 \<le> e then x ^ nat e else 1 / x ^ nat (- e))"

text \<open>
  How the \<^verbatim>\<open>for\<close> statement completes: normally (the condition became false and control
  falls through to the statement after the loop), by \<^verbatim>\<open>return\<close>, or by \<^verbatim>\<open>throw\<close>.
\<close>

datatype 'a completion = Normal | Return 'a | Throw thrown

type_synonym ('s, 'a) operation = "'s \<Rightarrow> (thrown + 'a) \<times> 's"

text \<open>
  The loop from the attempt counter \<open>attempt\<close> on, with the current value of
  \<^verbatim>\<open>lastError\<close>. It yields the completion, the final \<^verbatim>\<open>lastError\<close>, the final state and
  the events in order.
\<close>

partial_function (option) withRetry_loop ::
  "('s, 'a) operation \<Rightarrow> js_number \<Rightarrow> real \<Rightarrow> int \<Rightarrow> thrown \<Rightarrow> 's
     \<Rightarrow> ('a completion \<times> thrown \<times> 's \<times> event list) option" where
  "withRetry_loop operation maxRetries baseDelay attempt lastError s =
     (if int_le_number attempt maxRetries then
        (case operation s of
           (Inr v, s') \<Rightarrow> Some (Return v, lastError, s', [Attempt attempt])
         | (Inl error, s') \<Rightarrow>
             (if int_eq_number attempt maxRetries then
                (case message_access_error error of
                   Some type_error \<Rightarrow> Some (Throw type_error, error, s', [Attempt attempt])
                 | None \<Rightarrow>
                     Some (Throw (FanError (NetworkError_new (ERROR_MESSAGES RETRY_EXHAUSTED))),
                           error, s', [Attempt attempt]))
              else
                (case message_access_error error of
                   Some type_error \<Rightarrow> Some (Throw type_error, error, s', [Attempt attempt])
                 | None \<Rightarrow>
                     Option.bind
                       (withRetry_loop operation maxRetries baseDelay (attempt + 1) error s')
                       (\<lambda>(c, lastError', s'', evs).
                          Some (c, lastError', s'',
                                Attempt attempt #
                                Delay (baseDelay * Math_pow 2 (attempt - 1)) # evs)))))
      else Some (Normal, lastError, s, []))"

declare withRetry_loop.simps [code]

definition withRetry ::
  "('s, 'a) operation \<Rightarrow> js_number \<Rightarrow> real \<Rightarrow> 's
     \<Rightarrow> ((thrown + 'a) \<times> 's \<times> event list) option" where
  "withRetry operation maxRetries baseDelay s =
     (case withRetry_loop operation maxRetries baseDelay 1 Undefined s of
        None \<Rightarrow> None
      | Some (Return v, lastError, s', evs) \<Rightarrow> Some (Inr v, s', evs)
      | Some (Throw e, lastError, s', evs) \<Rightarrow> Some (Inl e, s', evs)
      | Some (Normal, lastError, s', evs) \<Rightarrow> Some (Inl lastError, s', evs))"

text \<open>The attempt numbers and the delays of a run, in order.\<close>

fun attempts_of :: "event list \<Rightarrow> int list" where
  "attempts_of [] = []"
| "attempts_of (Attempt k # evs) = k # attempts_of evs"
| "attempts_of (Delay d # evs) = attempts_of evs"

fun delays_of :: "event list \<Rightarrow> real list" where
  "delays_of [] = []"
| "delays_of (Attempt k # evs) = delays_of evs"
| "delays_of (Delay d # evs) = d # delays_of evs"

text \<open>The state in which the \<open>j\<close>-th call (counted from 0) of the operation runs.\<close>

definition state_before :: "('s, 'a) operation \<Rightarrow> nat \<Rightarrow> 's \<Rightarrow> 's" where
  "state_before operation j s = ((\<lambda>t. snd (operation t)) ^^ j) s"

text \<open>
  An attempt fails with an error whose message can be read: the operation rejected, with a
  value other than \<^verbatim>\<open>undefined\<close> and \<^verbatim>\<open>null\<close>.
\<close>

definition rejects_with_error :: "thrown + 'a \<Rightarrow> bool" where
  "rejects_with_error r =
     (case r of Inl e \<Rightarrow> message_access_error e = None | Inr v \<Rightarrow> False)"

text \<open>
  The events the specification prescribes for a run whose attempts are numbered \<open>a\<close> to
  \<open>k\<close>: after each attempt \<open>j\<close> but the last, one wait of \<open>baseDelay * 2^(j-1)\<close>.
\<close>

definition backoff_events :: "real \<Rightarrow> int \<Rightarrow> int \<Rightarrow> event list" where
  "backoff_events baseDelay a k =
     concat (map (\<lambda>j. [Attempt j, Delay (baseDelay * 2 ^ nat (j - 1))]) [a..k - 1]) @
     [Attempt k]"

text \<open>Operations to run the wrapper on; the state counts the calls.\<close>

definition always_failing :: "(nat, unit) operation" where
  "always_failing s = (Inl (FanError (NetworkError_new (ERROR_MESSAGES TIMEOUT))), Suc s)"

definition succeeds_third :: "(nat, string) operation" where
  "succeeds_third s =
     (if s < 2 then Inl (FanError (NetworkError_new (ERROR_MESSAGES TIMEOUT))) else Inr ''ok'',
      Suc s)"

definition rejects_undefined :: "(nat, unit) operation" where
  "rejects_undefined s = (Inl Undefined, Suc s)"

definition undefined_then_ok :: "(nat, string) operation" where
  "undefined_then_ok s = ((if s < 1 then Inl Undefined else Inr ''ok''), Suc s)"

section \<open>Input values and the schema library\<close>

text \<open>
  The validators take \<^verbatim>\<open>unknown\<close>. A value that is none of \<^verbatim>\<open>undefined\<close>, \<^verbatim>\<open>null\<close>, a
  boolean, a number or a string (an object, an array, a function and so on) is \<open>JOther\<close>
  with the name the schema library gives to its type.
\<close>

datatype js_value =
  JUndefined | JNull | JBoolean bool | JNumber js_number | JString string | JOther string

fun Number_isInteger :: "js_number \<Rightarrow> bool" where
  "Number_isInteger (Finite r) = (of_int \<lfloor>r\<rfloor> = r)"
| "Number_isInteger _ = False"

text \<open>The comparisons \<^verbatim>\<open>x < c\<close> and \<^verbatim>\<open>x > c\<close> of a number with a finite bound.\<close>

fun number_lt :: "js_number \<Rightarrow> real \<Rightarrow> bool" where
  "number_lt (Finite r) c = (r < c)"
| "number_lt NegInfinity c = True"
| "number_lt _ c = False"

fun number_gt :: "js_number \<Rightarrow> real \<Rightarrow> bool" where
  "number_gt (Finite r) c = (r > c)"
| "number_gt PosInfinity c = True"
| "number_gt _ c = False"

text \<open>
  The schemas of \<^verbatim>\<open>validation.ts\<close> are built with the zod library (version 3), which
  is not part of the repository. Its behaviour is modelled as far as the schemas use it:
  a schema first tests the type of the input and stops there on a mismatch; otherwise it
  runs every check in the order of the chain, and each failed check adds one issue; a
  refinement runs after the checks unless the type test failed; \<^verbatim>\<open>parse\<close> returns the
  value when there is no issue and throws a \<^verbatim>\<open>ZodError\<close> holding the issues otherwise.
  A check without a message of its own reports the library's default message.
\<close>

record zod_issue =
  issue_code :: string
  issue_message :: string

datatype 'a parse_result = Aborted "zod_issue list" | Parsed 'a "zod_issue list"

fun getParsedType :: "js_value \<Rightarrow> string" where
  "getParsedType JUndefined = ''undefined''"
| "getParsedType JNull = ''null''"
| "getParsedType (JBoolean b) = ''boolean''"
| "getParsedType (JNumber NaN) = ''nan''"
| "getParsedType (JNumber x) = ''number''"
| "getParsedType (JString s) = ''string''"
| "getParsedType (JOther t) = t"

definition invalid_type :: "string \<Rightarrow> js_value \<Rightarrow> zod_issue" where
  "invalid_type expected input =
     \<lparr>issue_code = ''invalid_type'',
      issue_message =
        (if input = JUndefined then ''Required''
         else ''Expected '' @ expected @ '', received '' @ getParsedType input)\<rparr>"

definition z_number :: "(js_number \<Rightarrow> zod_issue list) list \<Rightarrow> js_value \<Rightarrow> js_number parse_result"
  where
  "z_number checks input =
     (case input of
        JNumber x \<Rightarrow>
          (if x = NaN then Aborted [invalid_type ''number'' input]
           else Parsed x (concat (map (\<lambda>check. check x) checks)))
      | _ \<Rightarrow> Aborted [invalid_type ''number'' input])"

definition z_int :: "js_number \<Rightarrow> zod_issue list" where
  "z_int x =
     (if Number_isInteger x then []
      else [\<lparr>issue_code = ''invalid_type'',
             issue_message = ''Expected integer, received float''\<rparr>])"

definition z_min :: "real \<Rightarrow> string \<Rightarrow> js_number \<Rightarrow> zod_issue list" where
  "z_min bound msg x =
     (if number_lt x bound then [\<lparr>issue_code = ''too_small'', issue_message = msg\<rparr>] else [])"

definition z_max :: "real \<Rightarrow> string \<Rightarrow> js_number \<Rightarrow> zod_issue list" where
  "z_max bound msg x =
     (if number_gt x bound then [\<lparr>issue_code = ''too_big'', issue_message = msg\<rparr>] else [])"

definition z_string :: "(string \<Rightarrow> zod_issue list) list \<Rightarrow> js_value \<Rightarrow> string parse_result"
  where
  "z_string checks input =
     (case input of
        JString x \<Rightarrow> Parsed x (concat (map (\<lambda>check. check x) checks))
      | _ \<Rightarrow> Aborted [invalid_type ''string'' input])"

definition z_refine :: "('a \<Rightarrow> bool) \<Rightarrow> string \<Rightarrow> 'a parse_result \<Rightarrow> 'a parse_result" where
  "z_refine accept msg r =
     (case r of
        Aborted issues \<Rightarrow> Aborted issues
      | Parsed x issues \<Rightarrow>
          Parsed x (issues @
            (if accept x then [] else [\<lparr>issue_code = ''custom'', issue_message = msg\<rparr>])))"

definition parse :: "'a parse_result \<Rightarrow> zod_issue list + 'a" where
  "parse r =
     (case r of
        Aborted issues \<Rightarrow> Inl issues
      | Parsed x issues \<Rightarrow> (if issues = [] then Inr x else Inl issues))"

subsection \<open>The library's IP check\<close>

text \<open>
  \<^verbatim>\<open>z.string().ip()\<close> tests the string against two regular expressions of the library,
  one for IPv4 and one for IPv6; called with no \<^verbatim>\<open>version\<close> option, as the schema does,
  it accepts a string that matches either. Regular expressions are matched by derivatives.
\<close>

datatype rexp =
  Nul | Eps | Chars "char list" | Alt rexp rexp | Seq rexp rexp | Star rexp

fun nullable :: "rexp \<Rightarrow> bool" where
  "nullable Nul = False"
| "nullable Eps = True"
| "nullable (Chars cs) = False"
| "nullable (Alt r1 r2) = (nullable r1 \<or> nullable r2)"
| "nullable (Seq r1 r2) = (nullable r1 \<and> nullable r2)"
| "nullable (Star r) = True"

fun alt :: "rexp \<Rightarrow> rexp \<Rightarrow> rexp" where
  "alt Nul r = r"
| "alt r Nul = r"
| "alt r1 r2 = Alt r1 r2"

fun seq :: "rexp \<Rightarrow> rexp \<Rightarrow> rexp" where
  "seq Nul r = Nul"
| "seq r Nul = Nul"
| "seq Eps r = r"
| "seq r1 r2 = Seq r1 r2"

fun deriv :: "char \<Rightarrow> rexp \<Rightarrow> rexp" where
  "deriv c Nul = Nul"
| "deriv c Eps = Nul"
| "deriv c (Chars cs) = (if c \<in> set cs then Eps else Nul)"
| "deriv c (Alt r1 r2) = alt (deriv c r1) (deriv c r2)"
| "deriv c (Seq r1 r2) =
     (if nullable r1 then alt (seq (deriv c r1) r2) (deriv c r2) else seq (deriv c r1) r2)"
| "deriv c (Star r) = seq (deriv c r) (Star r)"

text \<open>\<^verbatim>\<open>regex.test(s)\<close> for a regular expression anchored at both ends.\<close>

fun regex_test :: "rexp \<Rightarrow> string \<Rightarrow> bool" where
  "regex_test r [] = nullable r"
| "regex_test r (c # cs) = regex_test (deriv c r) cs"

text \<open>The quantifiers \<open>r{n}\<close>, \<open>r{0,n}\<close> and \<open>r{m,n}\<close>, and a literal string.\<close>

fun rep :: "nat \<Rightarrow> rexp \<Rightarrow> rexp" where
  "rep 0 r = Eps"
| "rep (Suc n) r = Seq r (rep n r)"

fun rep_upto :: "nat \<Rightarrow> rexp \<Rightarrow> rexp" where
  "rep_upto 0 r = Eps"
| "rep_upto (Suc n) r = Alt Eps (Seq r (rep_upto n r))"

definition rep_between :: "nat \<Rightarrow> nat \<Rightarrow> rexp \<Rightarrow> rexp" where
  "rep_between m n r = Seq (rep m r) (rep_upto (n - m) r)"

fun lit :: "string \<Rightarrow> rexp" where
  "lit [] = Eps"
| "lit (c # cs) = Seq (Chars [c]) (lit cs)"

fun alts :: "rexp list \<Rightarrow> rexp" where
  "alts [] = Nul"
| "alts [r] = r"
| "alts (r # rs) = Alt r (alts rs)"

definition dec_digit :: rexp where
  "dec_digit = Chars ''0123456789''"

definition hexdigit :: rexp where
  "hexdigit = Chars ''0123456789abcdefABCDEF''"

text \<open>
  \<^verbatim>\<open>25[0-5]|2[0-4][0-9]|1[0-9][0-9]|[1-9][0-9]|[0-9]\<close>, and the library's IPv4 expression:
  three of these each followed by a dot, and a fourth.
\<close>

definition octet :: rexp where
  "octet = alts
     [Seq (lit ''25'') (Chars ''012345''),
      Seq (lit ''2'') (Seq (Chars ''01234'') dec_digit),
      Seq (lit ''1'') (Seq dec_digit dec_digit),
      Seq (Chars ''123456789'') dec_digit,
      dec_digit]"

definition ipv4Regex :: rexp where
  "ipv4Regex = Seq (rep 3 (Seq octet (lit ''.''))) octet"

text \<open>
  The library's IPv6 expression. \<open>h4\<close> is \<^verbatim>\<open>[0-9a-fA-F]{1,4}\<close>, \<open>h4c\<close> is that followed
  by a colon, \<open>ch4\<close> is that preceded by one, and \<open>octet6\<close> is
  \<^verbatim>\<open>25[0-5]|(2[0-4]|1{0,1}[0-9]){0,1}[0-9]\<close>.
\<close>

definition h4 :: rexp where
  "h4 = rep_between 1 4 hexdigit"

definition h4c :: rexp where
  "h4c = Seq h4 (lit '':'')"

definition ch4 :: rexp where
  "ch4 = Seq (lit '':'') h4"

definition octet6 :: rexp where
  "octet6 = Alt (Seq (lit ''25'') (Chars ''012345''))
     (Seq (rep_upto 1
        (Alt (Seq (lit ''2'') (Chars ''01234'')) (Seq (rep_upto 1 (lit ''1'')) dec_digit)))
      dec_digit)"

definition dotted6 :: rexp where
  "dotted6 = Seq (rep 3 (Seq octet6 (lit ''.''))) octet6"

definition ipv6Regex :: rexp where
  "ipv6Regex = alts
     [Seq (rep 7 h4c) h4,
      Seq (rep_between 1 7 h4c) (lit '':''),
      Seq (rep_between 1 6 h4c) ch4,
      Seq (rep_between 1 5 h4c) (rep_between 1 2 ch4),
      Seq (rep_between 1 4 h4c) (rep_between 1 3 ch4),
      Seq (rep_between 1 3 h4c) (rep_between 1 4 ch4),
      Seq (rep_between 1 2 h4c) (rep_between 1 5 ch4),
      Seq h4c (rep_between 1 6 ch4),
      Seq (lit '':'') (Alt (rep_between 1 7 ch4) (lit '':'')),
      Seq (lit ''fe80:'')
        (Seq (rep_upto 4 (Seq (lit '':'') (rep_upto 4 hexdigit)))
          (Seq (lit ''%'')
            (Seq (Chars ''0123456789abcdefghijklmnopqrstuvwxyzABCDEFGHIJKLMNOPQRSTUVWXYZ'')
              (Star (Chars ''0123456789abcdefghijklmnopqrstuvwxyzABCDEFGHIJKLMNOPQRSTUVWXYZ''))))),
      Seq (lit ''::'')
        (Seq (rep_upto 1
            (Seq (lit ''ffff'')
              (Seq (rep_upto 1 (Seq (lit '':'') (rep_between 1 4 (lit ''0'')))) (lit '':''))))
          dotted6),
      Seq (rep_between 1 4 h4c) (Seq (lit '':'') dotted6)]"

datatype ip_version = V4 | V6

definition isValidIP :: "string \<Rightarrow> ip_version option \<Rightarrow> bool" where
  "isValidIP ip version =
     (((version = Some V4 \<or> version = None) \<and> regex_test ipv4Regex ip) \<or>
      ((version = Some V6 \<or> version = None) \<and> regex_test ipv6Regex ip))"

definition z_ip :: "ip_version option \<Rightarrow> string \<Rightarrow> zod_issue list" where
  "z_ip version x =
     (if isValidIP x version then []
      else [\<lparr>issue_code = ''invalid_string'', issue_message = ''Invalid ip''\<rparr>])"

section \<open>Validation (utils/validation.ts)\<close>

definition fanSpeedSchema :: "js_value \<Rightarrow> js_number parse_result" where
  "fanSpeedSchema =
     z_number
       [z_int,
        z_min 1 (ERROR_MESSAGES INVALID_SPEED),
        z_max 6 (ERROR_MESSAGES INVALID_SPEED)]"

definition ipAddressSchema :: "js_value \<Rightarrow> string parse_result" where
  "ipAddressSchema input =
     z_refine (\<lambda>ip. ip \<noteq> ''0.0.0.0'') ''IP address cannot be 0.0.0.0''
       (z_string [z_ip None] input)"

definition validateFanSpeed :: "js_value \<Rightarrow> thrown + js_number" where
  "validateFanSpeed speed =
     (case parse (fanSpeedSchema speed) of
        Inr v \<Rightarrow> Inr v
      | Inl errors \<Rightarrow>
          (if length errors > 0
           then Inl (FanError (ValidationError_new (issue_message (errors ! 0))))
           else Inl (FanError (ValidationError_new ''Invalid fan speed value''))))"

definition validateIpAddress :: "js_value \<Rightarrow> thrown + string" where
  "validateIpAddress ip =
     (case parse (ipAddressSchema ip) of
        Inr v \<Rightarrow> Inr v
      | Inl errors \<Rightarrow>
          (if length errors > 0
           then Inl (FanError (ValidationError_new (issue_message (errors ! 0))))
           else Inl (FanError (ValidationError_new ''Invalid IP address''))))"

section \<open>The service (src/service.ts)\<close>

record config =
  FAN_IP :: string
  FAN_PORT :: int
  UDP_TIMEOUT :: real
  UDP_RETRY_ATTEMPTS :: int

text \<open>The defaults of the configuration module.\<close>

definition default_config :: config where
  "default_config =
     \<lparr>FAN_IP = ''192.168.1.13'', FAN_PORT = 5600, UDP_TIMEOUT = 5000, UDP_RETRY_ATTEMPTS = 3\<rparr>"

text \<open>The interface \<^verbatim>\<open>UdpMessage\<close>: three optional fields.\<close>

record UdpMessage =
  led :: "bool option"
  power :: "bool option"
  speed :: "js_number option"

text \<open>
  \<^verbatim>\<open>JSON.stringify(message)\<close>. The JSON text of an object is represented by its members
  in the order they are written: a field that is \<^verbatim>\<open>undefined\<close> has no member, and a
  number that is not finite is written \<^verbatim>\<open>null\<close>.
\<close>

datatype json = JsonBool bool | JsonNumber real | JsonNull

fun json_of_number :: "js_number \<Rightarrow> json" where
  "json_of_number (Finite r) = JsonNumber r"
| "json_of_number _ = JsonNull"

definition JSON_stringify :: "UdpMessage \<Rightarrow> (string \<times> json) list" where
  "JSON_stringify m =
     (case led m of None \<Rightarrow> [] | Some b \<Rightarrow> [(''led'', JsonBool b)]) @
     (case power m of None \<Rightarrow> [] | Some b \<Rightarrow> [(''power'', JsonBool b)]) @
     (case speed m of None \<Rightarrow> [] | Some x \<Rightarrow> [(''speed'', json_of_number x)])"

text \<open>
  The socket and the network are outside the program. The state records every call of
  \<^verbatim>\<open>client.send\<close> in order. How a call ends is given by the environment, as a function
  of how many calls came before it: the callback runs first, with an error or without
  one; or the timer of \<^verbatim>\<open>UDP_TIMEOUT\<close> fires first; or \<^verbatim>\<open>client.send\<close> itself throws,
  which rejects the promise with what it threw: an \<^verbatim>\<open>Error\<close> of the socket library, given
  by its message.
\<close>

record datagram =
  payload :: "(string \<times> json) list"
  port :: int
  address :: string

record world =
  sends :: "datagram list"

datatype send_outcome = Callback "string option" | TimerFirst | SendThrows string

type_synonym network = "nat \<Rightarrow> send_outcome"

text \<open>The operation that \<^verbatim>\<open>sendUdpMessage\<close> hands to the retry wrapper: one attempt.\<close>

definition send_attempt ::
  "config \<Rightarrow> network \<Rightarrow> (string \<times> json) list \<Rightarrow> (world, unit) operation" where
  "send_attempt cfg net messageStr w =
     (let w' = w\<lparr>sends := sends w @
                 [\<lparr>payload = messageStr, port = FAN_PORT cfg, address = FAN_IP cfg\<rparr>]\<rparr>
      in case net (length (sends w)) of
           Callback None \<Rightarrow> (Inr (), w')
         | Callback (Some err) \<Rightarrow>
             (Inl (FanError (NetworkError_new (ERROR_MESSAGES UDP_SEND_FAILED))), w')
         | TimerFirst \<Rightarrow> (Inl (FanError (NetworkError_new (ERROR_MESSAGES TIMEOUT))), w')
         | SendThrows m \<Rightarrow> (Inl (ForeignError m), w'))"

text \<open>
  \<^verbatim>\<open>sendUdpMessage\<close> calls the wrapper with the configured number of attempts, an integer,
  and the default \<^verbatim>\<open>baseDelay\<close> of 100. With a finite \<^verbatim>\<open>maxRetries\<close> the wrapper always
  settles (lemma \<open>withRetry_settles\<close> below), so the last case never applies; it is there because
  the wrapper is a partial function.
\<close>

definition sendUdpMessage ::
  "config \<Rightarrow> network \<Rightarrow> UdpMessage \<Rightarrow> world \<Rightarrow> (thrown + unit) \<times> world" where
  "sendUdpMessage cfg net msg w =
     (let messageStr = JSON_stringify msg
      in case withRetry (send_attempt cfg net messageStr)
                (Finite (of_int (UDP_RETRY_ATTEMPTS cfg))) 100 w of
           Some (Inr u, w', evs) \<Rightarrow> (Inr (), w')
         | Some (Inl error, w', evs) \<Rightarrow> (Inl error, w')
         | None \<Rightarrow> (Inl Undefined, w))"

definition turnOnLed :: "config \<Rightarrow> network \<Rightarrow> world \<Rightarrow> (thrown + unit) \<times> world" where
  "turnOnLed cfg net w =
     (case sendUdpMessage cfg net \<lparr>led = Some True, power = None, speed = None\<rparr> w of
        (Inr u, w') \<Rightarrow> (Inr (), w')
      | (Inl error, w') \<Rightarrow> (Inl error, w'))"

definition turnOffLed :: "config \<Rightarrow> network \<Rightarrow> world \<Rightarrow> (thrown + unit) \<times> world" where
  "turnOffLed cfg net w =
     (case sendUdpMessage cfg net \<lparr>led = Some False, power = None, speed = None\<rparr> w of
        (Inr u, w') \<Rightarrow> (Inr (), w')
      | (Inl error, w') \<Rightarrow> (Inl error, w'))"

definition turnOnFan :: "config \<Rightarrow> network \<Rightarrow> world \<Rightarrow> (thrown + unit) \<times> world" where
  "turnOnFan cfg net w =
     (case sendUdpMessage cfg net \<lparr>led = None, power = Some True, speed = None\<rparr> w of
        (Inr u, w') \<Rightarrow> (Inr (), w')
      | (Inl error, w') \<Rightarrow> (Inl error, w'))"

definition turnOffFan :: "config \<Rightarrow> network \<Rightarrow> world \<Rightarrow> (thrown + unit) \<times> world" where
  "turnOffFan cfg net w =
     (case sendUdpMessage cfg net \<lparr>led = None, power = Some False, speed = None\<rparr> w of
        (Inr u, w') \<Rightarrow> (Inr (), w')
      | (Inl error, w') \<Rightarrow> (Inl error, w'))"

text \<open>
  \<^verbatim>\<open>setFanSpeed\<close>: the validation and the send are in one \<^verbatim>\<open>try\<close>; the handler
  rethrows what it caught in both of its branches.
\<close>

definition setFanSpeed ::
  "config \<Rightarrow> network \<Rightarrow> js_value \<Rightarrow> world \<Rightarrow> (thrown + unit) \<times> world" where
  "setFanSpeed cfg net speed_arg w =
     (case (case validateFanSpeed speed_arg of
              Inl error \<Rightarrow> (Inl error, w)
            | Inr validatedSpeed \<Rightarrow>
                sendUdpMessage cfg net
                  \<lparr>led = None, power = None, speed = Some validatedSpeed\<rparr> w) of
        (Inr u, w') \<Rightarrow> (Inr (), w')
      | (Inl error, w') \<Rightarrow>
          (if instanceof_ValidationError error then (Inl error, w') else (Inl error, w')))"

datatype health_status = healthy | unhealthy

record health =
  status :: health_status
  details :: string

definition checkFanHealth :: "config \<Rightarrow> network \<Rightarrow> world \<Rightarrow> (thrown + health) \<times> world" where
  "checkFanHealth cfg net w =
     (case sendUdpMessage cfg net \<lparr>led = Some False, power = None, speed = None\<rparr> w of
        (Inr u, w') \<Rightarrow>
          (Inr \<lparr>status = healthy, details = ''Fan is responding to UDP messages''\<rparr>, w')
      | (Inl error, w') \<Rightarrow>
          (Inr \<lparr>status = unhealthy,
                details = ''Fan is not responding: '' @ error_text error\<rparr>, w'))"

text \<open>
  \<^verbatim>\<open>cleanup\<close>: \<^verbatim>\<open>client.close()\<close> belongs to the socket library and is a parameter; it
  may throw, and leaves the socket in a new state. Whatever it throws is caught and logged.
\<close>

definition cleanup :: "('c \<Rightarrow> (thrown + unit) \<times> 'c) \<Rightarrow> 'c \<Rightarrow> (thrown + unit) \<times> 'c" where
  "cleanup client_close c =
     (case client_close c of
        (Inr u, c') \<Rightarrow> (Inr (), c')
      | (Inl error, c') \<Rightarrow> (Inr (), c'))"

text \<open>
  The socket of Node's \<^verbatim>\<open>dgram\<close> module, as its documentation has it: closing a socket
  that is already closed throws "Not running".
\<close>

datatype socket = Open | Closed

fun dgram_close :: "socket \<Rightarrow> (thrown + unit) \<times> socket" where
  "dgram_close Open = (Inr (), Closed)"
| "dgram_close Closed = (Inl (ForeignError ''Not running''), Closed)"

text \<open>\<^verbatim>\<open>s.includes(sub)\<close> on strings.\<close>

fun starts_with :: "string \<Rightarrow> string \<Rightarrow> bool" where
  "starts_with s [] = True"
| "starts_with [] (c # cs) = False"
| "starts_with (d # ds) (c # cs) = (d = c \<and> starts_with ds cs)"

fun String_includes :: "string \<Rightarrow> string \<Rightarrow> bool" where
  "String_includes [] sub = (sub = [])"
| "String_includes (d # ds) sub = (starts_with (d # ds) sub \<or> String_includes ds sub)"

text \<open>The datagram a call of \<^verbatim>\<open>client.send\<close> is made with.\<close>

definition dgram_of :: "config \<Rightarrow> (string \<times> json) list \<Rightarrow> datagram" where
  "dgram_of cfg ms = \<lparr>payload = ms, port = FAN_PORT cfg, address = FAN_IP cfg\<rparr>"

text \<open>
  Whether one of the attempts of a call of \<^verbatim>\<open>sendUdpMessage\<close> that starts in \<open>w\<close> gets
  through: the callback of one of the next \<^verbatim>\<open>UDP_RETRY_ATTEMPTS\<close> sends runs without an
  error, before its timer.
\<close>

definition gets_through :: "config \<Rightarrow> network \<Rightarrow> world \<Rightarrow> bool" where
  "gets_through cfg net w =
     (\<exists>j < nat (UDP_RETRY_ATTEMPTS cfg). net (length (sends w) + j) = Callback None)"

text \<open>
  The number of calls of \<^verbatim>\<open>client.send\<close> that one message causes when the next call is
  the \<open>i\<close>-th and \<open>m\<close> attempts are allowed: the attempts up to and including the first one
  that gets through, or all \<open>m\<close> when none does.
\<close>

fun sends_made :: "network \<Rightarrow> nat \<Rightarrow> nat \<Rightarrow> nat" where
  "sends_made net i 0 = 0"
| "sends_made net i (Suc m) =
     (if net i = Callback None then 1 else 1 + sends_made net (Suc i) m)"

text \<open>Three environments: every send is handed over, every send times out, every send fails.\<close>

definition net_ok :: network where
  "net_ok j = Callback None"

definition net_timeout :: network where
  "net_timeout j = TimerFirst"

definition net_unreachable :: network where
  "net_unreachable j = Callback (Some ''send ENETUNREACH'')"

definition no_sends :: world where
  "no_sends = \<lparr>sends = []\<rparr>"

section \<open>Properties of the retry wrapper\<close>

lemma state_before_Suc:
  "state_before operation (Suc j) s = state_before operation j (snd (operation s))"
  unfolding state_before_def by (simp only: funpow_Suc_right o_apply)

lemma state_before_0: "state_before operation 0 s = s"
  by (simp add: state_before_def)

lemma backoff_events_step:
  "a < k \<Longrightarrow>
   backoff_events b a k =
     Attempt a # Delay (b * 2 ^ nat (a - 1)) # backoff_events b (a + 1) k"
  by (simp add: backoff_events_def upto_rec1[of a "k - 1"])

lemma backoff_events_last: "backoff_events b k k = [Attempt k]"
  by (simp add: backoff_events_def)

lemma Math_pow_nonneg: "1 \<le> a \<Longrightarrow> Math_pow 2 (a - 1) = 2 ^ nat (a - 1)"
  by (simp add: Math_pow_def)

lemma int_le_number_mono: "a \<le> k \<Longrightarrow> int_le_number k m \<Longrightarrow> int_le_number a m"
  by (cases m) auto

lemma int_eq_number_below: "a < k \<Longrightarrow> int_le_number k m \<Longrightarrow> \<not> int_eq_number a m"
  by (cases m) auto

lemma rejects_with_errorD:
  assumes "rejects_with_error (fst (operation s))"
  obtains e s' where "operation s = (Inl e, s')" "message_access_error e = None"
  using assms by (cases "operation s") (auto simp: rejects_with_error_def split: sum.splits)

lemma loop_succeeds:
  assumes "1 \<le> a" "a \<le> k" "int_le_number k m"
    and "\<forall>j < nat (k - a). rejects_with_error (fst (operation (state_before operation j s)))"
    and "fst (operation (state_before operation (nat (k - a)) s)) = Inr v"
  shows "\<exists>le. withRetry_loop operation m b a lastError s =
           Some (Return v, le, state_before operation (Suc (nat (k - a))) s,
                 backoff_events b a k)"
  using assms
proof (induction "nat (k - a)" arbitrary: a s lastError)
  case 0
  then have ak: "a = k" by simp
  from 0 have "fst (operation s) = Inr v" by (simp add: state_before_0)
  then obtain s' where os: "operation s = (Inr v, s')" by (cases "operation s") auto
  show ?case using 0 ak os
    by (simp add: withRetry_loop.simps[of operation m b k] state_before_Suc state_before_0
        backoff_events_last)
next
  case (Suc n)
  then have lt: "a < k" by linarith
  from Suc.prems(4) Suc.hyps(2)
  have "rejects_with_error (fst (operation (state_before operation 0 s)))" by simp
  then obtain e s' where os: "operation s = (Inl e, s')" and rd: "message_access_error e = None"
    by (auto simp: state_before_0 elim: rejects_with_errorD)
  have n: "n = nat (k - (a + 1))" using Suc.hyps(2) by linarith
  have cnt: "nat (k - a) = Suc (nat (k - (a + 1)))" using lt by linarith
  have f: "\<forall>j < nat (k - (a + 1)).
      rejects_with_error (fst (operation (state_before operation j s')))"
  proof (intro allI impI)
    fix j assume "j < nat (k - (a + 1))"
    then have "Suc j < nat (k - a)" using cnt by linarith
    with Suc.prems(4)
    have "rejects_with_error (fst (operation (state_before operation (Suc j) s)))" by blast
    then show "rejects_with_error (fst (operation (state_before operation j s')))"
      by (simp add: state_before_Suc os)
  qed
  have g: "fst (operation (state_before operation (nat (k - (a + 1))) s')) = Inr v"
    using Suc.prems(5) by (simp add: cnt state_before_Suc os)
  have "1 \<le> a + 1" "a + 1 \<le> k" using Suc.prems lt by auto
  from Suc.hyps(1)[OF n this \<open>int_le_number k m\<close> f g, of e]
  obtain le where rec: "withRetry_loop operation m b (a + 1) e s' =
      Some (Return v, le, state_before operation (Suc (nat (k - (a + 1)))) s',
            backoff_events b (a + 1) k)"
    by blast
  have sb: "state_before operation (Suc (nat (k - (a + 1)))) s' =
      state_before operation (Suc (nat (k - a))) s"
    by (simp add: cnt state_before_Suc os)
  have le_m: "int_le_number a m"
    using int_le_number_mono[of a k m] lt \<open>int_le_number k m\<close> by simp
  have ne_m: "\<not> int_eq_number a m"
    using int_eq_number_below[OF lt \<open>int_le_number k m\<close>] .
  show ?case
    using le_m ne_m os rd rec sb Suc.prems(1)
    by (simp add: withRetry_loop.simps[of operation m b a] backoff_events_step[OF lt]
        Math_pow_nonneg)
qed

lemma loop_exhausts:
  assumes "1 \<le> a" "a \<le> n"
    and "\<forall>j < nat (n - a + 1).
           rejects_with_error (fst (operation (state_before operation j s)))"
  shows "\<exists>le. withRetry_loop operation (Finite (of_int n)) b a lastError s =
           Some (Throw (FanError (NetworkError_new (ERROR_MESSAGES RETRY_EXHAUSTED))), le,
                 state_before operation (nat (n - a + 1)) s, backoff_events b a n)"
  using assms
proof (induction "nat (n - a)" arbitrary: a s lastError)
  case 0
  then have an: "a = n" by simp
  from 0 an have "rejects_with_error (fst (operation (state_before operation 0 s)))" by simp
  then obtain e s' where os: "operation s = (Inl e, s')" and rd: "message_access_error e = None"
    by (auto simp: state_before_0 elim: rejects_with_errorD)
  show ?case using an os rd
    by (simp add: withRetry_loop.simps[of operation "Finite (of_int n)" b n] state_before_Suc
        state_before_0 backoff_events_last)
next
  case (Suc k)
  then have lt: "a < n" by linarith
  from Suc.prems(3) lt
  have "rejects_with_error (fst (operation (state_before operation 0 s)))" by simp
  then obtain e s' where os: "operation s = (Inl e, s')" and rd: "message_access_error e = None"
    by (auto simp: state_before_0 elim: rejects_with_errorD)
  have k: "k = nat (n - (a + 1))" using Suc.hyps(2) by linarith
  have cnt: "nat (n - a + 1) = Suc (nat (n - (a + 1) + 1))" using lt by linarith
  have f: "\<forall>j < nat (n - (a + 1) + 1).
      rejects_with_error (fst (operation (state_before operation j s')))"
  proof (intro allI impI)
    fix j assume "j < nat (n - (a + 1) + 1)"
    then have "Suc j < nat (n - a + 1)" using cnt by linarith
    with Suc.prems(3)
    have "rejects_with_error (fst (operation (state_before operation (Suc j) s)))" by blast
    then show "rejects_with_error (fst (operation (state_before operation j s')))"
      by (simp add: state_before_Suc os)
  qed
  have "1 \<le> a + 1" "a + 1 \<le> n" using Suc.prems lt by auto
  from Suc.hyps(1)[OF k this f, of e]
  obtain le where rec: "withRetry_loop operation (Finite (of_int n)) b (a + 1) e s' =
      Some (Throw (FanError (NetworkError_new (ERROR_MESSAGES RETRY_EXHAUSTED))), le,
            state_before operation (nat (n - (a + 1) + 1)) s', backoff_events b (a + 1) n)"
    by blast
  have sb: "state_before operation (nat (n - (a + 1) + 1)) s' =
      state_before operation (nat (n - a + 1)) s"
    by (simp only: cnt state_before_Suc os snd_conv)
  have an: "a \<le> n" "a \<noteq> n" using lt by auto
  show ?case
    using an os rd rec sb Suc.prems(1)
    by (simp add: withRetry_loop.simps[of operation "Finite (of_int n)" b a]
        backoff_events_step[OF lt] Math_pow_nonneg)
qed

lemma loop_falls_through:
  "\<not> int_le_number a m \<Longrightarrow>
   withRetry_loop operation m b a lastError s = Some (Normal, lastError, s, [])"
  by (simp add: withRetry_loop.simps[of operation m b a])

text \<open>With a finite \<open>maxRetries\<close> the loop, and so the wrapper, always settles.\<close>

lemma loop_settles:
  "\<exists>r. withRetry_loop operation (Finite m) b a lastError s = Some r"
proof (induction "nat (\<lfloor>m\<rfloor> + 1 - a)" arbitrary: a s lastError)
  case 0
  then have "m < of_int a" by linarith
  then show ?case by (simp add: withRetry_loop.simps[of operation "Finite m" b a])
next
  case (Suc k)
  then have k: "k = nat (\<lfloor>m\<rfloor> + 1 - (a + 1))" by linarith
  obtain r s' where os: "operation s = (r, s')" by (cases "operation s") auto
  show ?case
  proof (cases r)
    case (Inr v)
    with os show ?thesis by (simp add: withRetry_loop.simps[of operation "Finite m" b a])
  next
    case (Inl e)
    from Suc.hyps(1)[OF k, of e s']
    obtain c le s'' evs where
      "withRetry_loop operation (Finite m) b (a + 1) e s' = Some (c, le, s'', evs)"
      by (metis prod_cases4)
    with os Inl show ?thesis
      by (simp add: withRetry_loop.simps[of operation "Finite m" b a] split: option.splits)
  qed
qed

lemma withRetry_settles: "\<exists>r. withRetry operation (Finite m) b s = Some r"
proof -
  from loop_settles[of operation m b 1 Undefined s]
  obtain c le s' evs where
    "withRetry_loop operation (Finite m) b 1 Undefined s = Some (c, le, s', evs)"
    by (metis prod_cases4)
  then show ?thesis by (cases c) (simp_all add: withRetry_def)
qed

text \<open>How the loop can be left when \<open>maxRetries\<close> is an integer \<open>n\<close> not below the counter.\<close>

lemma loop_exits:
  assumes "a \<le> n"
  shows "\<exists>c le s' evs.
           withRetry_loop operation (Finite (of_int n)) b a lastError s = Some (c, le, s', evs) \<and>
           ((\<exists>v. c = Return v) \<or>
            (c = Throw (FanError (NetworkError_new (ERROR_MESSAGES RETRY_EXHAUSTED))) \<and>
             last (attempts_of evs) = n \<and> attempts_of evs \<noteq> []) \<or>
            (\<exists>t ty. fst (operation t) = Inl le \<and> message_access_error le = Some ty \<and>
               c = Throw ty))"
  using assms
proof (induction "nat (n - a)" arbitrary: a s lastError)
  case 0
  then have an: "a = n" by simp
  obtain r s' where os: "operation s = (r, s')" by (cases "operation s") auto
  show ?case
  proof (cases r)
    case (Inr v)
    with os an show ?thesis
      by (simp add: withRetry_loop.simps[of operation "Finite (of_int n)" b n])
  next
    case (Inl e)
    show ?thesis
    proof (cases "message_access_error e")
      case None
      with os Inl an show ?thesis
        by (simp add: withRetry_loop.simps[of operation "Finite (of_int n)" b n])
    next
      case (Some ty)
      have ex: "\<exists>t. fst (operation t) = Inl e"
        by (rule exI[of _ s]) (simp add: os Inl)
      have "withRetry_loop operation (Finite (of_int n)) b n lastError s =
          Some (Throw ty, e, s', [Attempt n])"
        using os Inl Some
        by (simp add: withRetry_loop.simps[of operation "Finite (of_int n)" b n])
      with ex Some an show ?thesis by blast
    qed
  qed
next
  case (Suc k)
  then have lt: "a < n" by linarith
  have k: "k = nat (n - (a + 1))" using Suc.hyps(2) by linarith
  have le: "a + 1 \<le> n" using lt by simp
  obtain r s' where os: "operation s = (r, s')" by (cases "operation s") auto
  show ?case
  proof (cases r)
    case (Inr v)
    with os lt show ?thesis
      by (simp add: withRetry_loop.simps[of operation "Finite (of_int n)" b a])
  next
    case (Inl e)
    show ?thesis
    proof (cases "message_access_error e")
      case (Some ty)
      have ex: "\<exists>t. fst (operation t) = Inl e"
        by (rule exI[of _ s]) (simp add: os Inl)
      have "withRetry_loop operation (Finite (of_int n)) b a lastError s =
          Some (Throw ty, e, s', [Attempt a])"
        using os Inl Some lt
        by (simp add: withRetry_loop.simps[of operation "Finite (of_int n)" b a])
      with ex Some show ?thesis by blast
    next
      case None
      from Suc.hyps(1)[OF k le, of e s']
      obtain c le' s'' evs where rec:
        "withRetry_loop operation (Finite (of_int n)) b (a + 1) e s' = Some (c, le', s'', evs)"
        and ih: "(\<exists>v. c = Return v) \<or>
          (c = Throw (FanError (NetworkError_new (ERROR_MESSAGES RETRY_EXHAUSTED))) \<and>
           last (attempts_of evs) = n \<and> attempts_of evs \<noteq> []) \<or>
          (\<exists>t ty. fst (operation t) = Inl le' \<and> message_access_error le' = Some ty \<and>
             c = Throw ty)"
        by blast
      have "withRetry_loop operation (Finite (of_int n)) b a lastError s =
          Some (c, le', s'', Attempt a # Delay (b * Math_pow 2 (a - 1)) # evs)"
        using os Inl None lt rec
        by (simp add: withRetry_loop.simps[of operation "Finite (of_int n)" b a])
      with ih show ?thesis by auto
    qed
  qed
qed

lemma attempts_of_backoff: "a \<le> k \<Longrightarrow> attempts_of (backoff_events b a k) = [a..k]"
proof (induction "nat (k - a)" arbitrary: a)
  case 0
  then have "a = k" by simp
  then show ?case by (simp add: backoff_events_last)
next
  case (Suc m)
  then have lt: "a < k" by linarith
  have "m = nat (k - (a + 1))" using Suc.hyps(2) by linarith
  from Suc.hyps(1)[OF this] lt have "attempts_of (backoff_events b (a + 1) k) = [a + 1..k]" by simp
  with lt show ?case by (simp add: backoff_events_step[OF lt] upto_rec1[of a k])
qed

lemma delays_of_backoff:
  "a \<le> k \<Longrightarrow> delays_of (backoff_events b a k) = map (\<lambda>j. b * 2 ^ nat (j - 1)) [a..k - 1]"
proof (induction "nat (k - a)" arbitrary: a)
  case 0
  then have "a = k" by simp
  then show ?case by (simp add: backoff_events_last)
next
  case (Suc m)
  then have lt: "a < k" by linarith
  have "m = nat (k - (a + 1))" using Suc.hyps(2) by linarith
  from Suc.hyps(1)[OF this] lt
  have "delays_of (backoff_events b (a + 1) k) = map (\<lambda>j. b * 2 ^ nat (j - 1)) [a + 1..k - 1]"
    by simp
  with lt show ?case by (simp add: backoff_events_step[OF lt] upto_rec1[of a "k - 1"])
qed

text \<open>
  Claim C1, as amended. An operation that fails at each of its first \<open>n\<close> calls with a
  value other than \<^verbatim>\<open>undefined\<close> and \<^verbatim>\<open>null\<close>, run under the integer \<open>maxRetries = n \<ge> 1\<close>,
  is called exactly \<open>n\<close> times (attempts 1 to \<open>n\<close>, no call \<open>n + 1\<close>, and the state is the
  one after \<open>n\<close> calls); the wrapper then throws the NetworkError with the retry-exhausted
  message, whatever the errors of the attempts were. Between the attempts it waits as the
  backoff prescribes.
\<close>

theorem withRetry_exhausted:
  assumes "1 \<le> n"
    and "\<forall>j < nat n. rejects_with_error (fst (operation (state_before operation j s)))"
  shows "withRetry operation (Finite (of_int n)) baseDelay s =
           Some (Inl (FanError (NetworkError_new ''Maximum retry attempts exceeded'')),
                 state_before operation (nat n) s, backoff_events baseDelay 1 n) \<and>
         attempts_of (backoff_events baseDelay 1 n) = [1..n] \<and>
         length (attempts_of (backoff_events baseDelay 1 n)) = nat n"
proof -
  from assms
  have "\<forall>j < nat (n - 1 + 1). rejects_with_error (fst (operation (state_before operation j s)))"
    by simp
  from loop_exhausts[OF _ assms(1) this, of baseDelay Undefined]
  obtain le where "withRetry_loop operation (Finite (of_int n)) baseDelay 1 Undefined s =
      Some (Throw (FanError (NetworkError_new (ERROR_MESSAGES RETRY_EXHAUSTED))), le,
            state_before operation (nat (n - 1 + 1)) s, backoff_events baseDelay 1 n)"
    by auto
  then show ?thesis
    using assms(1) by (simp add: withRetry_def attempts_of_backoff)
qed

lemma always_failing_state: "state_before always_failing j 0 = j"
  by (induction j) (simp_all add: state_before_def always_failing_def)

lemma backoff_events_3:
  "backoff_events 100 1 3 = [Attempt 1, Delay 100, Attempt 2, Delay 200, Attempt 3]"
  by (simp add: backoff_events_def upto_rec1)

theorem withRetry_exhausted_witness:
  "withRetry always_failing (Finite 3) 100 0 =
     Some (Inl (FanError (NetworkError_new ''Maximum retry attempts exceeded'')), 3,
           [Attempt 1, Delay 100, Attempt 2, Delay 200, Attempt 3]) \<and>
   attempts_of [Attempt 1, Delay 100, Attempt 2, Delay 200, Attempt 3] = [1, 2, 3]"
proof -
  have f: "\<forall>j < nat 3.
      rejects_with_error (fst (always_failing (state_before always_failing j 0)))"
    by (simp add: always_failing_def rejects_with_error_def NetworkError_new_def)
  have u: "[1..3::int] = [1, 2, 3]" by (simp add: upto_rec1)
  show ?thesis
    using withRetry_exhausted[of 3 always_failing 0 100, OF _ f]
    by (simp add: u backoff_events_3 always_failing_state)
qed

text \<open>
  Claim C1 as stated fails for an operation that always rejects with \<^verbatim>\<open>undefined\<close>: under
  \<open>maxRetries = 3\<close> it is called once, and what the wrapper throws is the \<^verbatim>\<open>TypeError\<close> of
  reading \<^verbatim>\<open>lastError.message\<close>, not the exhaustion error.
\<close>

theorem withRetry_undefined_rejection_counterexample:
  "withRetry rejects_undefined (Finite 3) 100 0 =
     Some (Inl (ForeignError ''Cannot read properties of undefined (reading 'message')''),
           1, [Attempt 1])"
  by (simp add: withRetry_def withRetry_loop.simps[of rejects_undefined "Finite 3" 100 1]
      rejects_undefined_def)

text \<open>
  Claim C2, as amended. An operation that fails at attempts 1 to \<open>k - 1\<close>, each time with
  a value other than \<^verbatim>\<open>undefined\<close> and \<^verbatim>\<open>null\<close>, and succeeds with \<open>v\<close> at attempt
  \<open>k \<le> maxRetries\<close> makes the wrapper return \<open>v\<close> after exactly \<open>k\<close> calls, with one wait of
  \<open>baseDelay * 2^(j-1)\<close> after each failed attempt \<open>j\<close> and nothing after the success. With
  \<open>maxRetries = 3\<close> and \<open>baseDelay = 100\<close>, failing twice and then succeeding gives the
  waits 100 and 200 (the witness).
\<close>

theorem withRetry_success_backoff:
  assumes "1 \<le> k" "int_le_number k maxRetries"
    and "\<forall>j < nat (k - 1). rejects_with_error (fst (operation (state_before operation j s)))"
    and "fst (operation (state_before operation (nat (k - 1)) s)) = Inr v"
  shows "withRetry operation maxRetries baseDelay s =
           Some (Inr v, state_before operation (nat k) s, backoff_events baseDelay 1 k) \<and>
         attempts_of (backoff_events baseDelay 1 k) = [1..k] \<and>
         delays_of (backoff_events baseDelay 1 k) =
           map (\<lambda>j. baseDelay * 2 ^ nat (j - 1)) [1..k - 1]"
proof -
  from loop_succeeds[OF _ assms, of baseDelay Undefined]
  obtain le where "withRetry_loop operation maxRetries baseDelay 1 Undefined s =
      Some (Return v, le, state_before operation (Suc (nat (k - 1))) s,
            backoff_events baseDelay 1 k)"
    by auto
  moreover have "Suc (nat (k - 1)) = nat k" using assms(1) by simp
  ultimately show ?thesis
    using assms(1) by (simp add: withRetry_def attempts_of_backoff delays_of_backoff)
qed

theorem withRetry_success_backoff_witness:
  "withRetry succeeds_third (Finite 3) 100 0 =
     Some (Inr ''ok'', 3, [Attempt 1, Delay 100, Attempt 2, Delay 200, Attempt 3]) \<and>
   attempts_of [Attempt 1, Delay 100, Attempt 2, Delay 200, Attempt 3] = [1, 2, 3] \<and>
   delays_of [Attempt 1, Delay 100, Attempt 2, Delay 200, Attempt 3] = [100, 200]"
proof -
  have sb: "state_before succeeds_third j 0 = j" for j
    by (induction j) (simp_all add: state_before_def succeeds_third_def)
  have f: "\<forall>j < nat (3 - 1).
      rejects_with_error (fst (succeeds_third (state_before succeeds_third j 0)))"
    by (simp add: sb succeeds_third_def rejects_with_error_def NetworkError_new_def)
  have g: "fst (succeeds_third (state_before succeeds_third (nat (3 - 1)) 0)) = Inr ''ok''"
    by (simp add: sb succeeds_third_def)
  have m: "int_le_number 3 (Finite 3)" by simp
  show ?thesis
    using withRetry_success_backoff[of 3 "Finite 3" succeeds_third 0 "''ok''" 100, OF _ m f g]
    by (simp add: sb backoff_events_3)
qed

text \<open>
  Claim C2 as stated fails for an operation that rejects with \<^verbatim>\<open>undefined\<close> at its first
  call and would succeed at its second: under \<open>maxRetries = 3\<close> the wrapper throws the
  \<^verbatim>\<open>TypeError\<close> after the first call, sets no timer and makes no second attempt.
\<close>

theorem withRetry_undefined_then_ok_counterexample:
  "fst (undefined_then_ok (state_before undefined_then_ok 1 0)) = Inr ''ok'' \<and>
   withRetry undefined_then_ok (Finite 3) 100 0 =
     Some (Inl (ForeignError ''Cannot read properties of undefined (reading 'message')''),
           1, [Attempt 1])"
  by (simp add: withRetry_def withRetry_loop.simps[of undefined_then_ok "Finite 3" 100 1]
      undefined_then_ok_def state_before_def)

text \<open>
  Claim C10, as amended. When \<open>maxRetries\<close> is an integer \<open>n \<ge> 1\<close> the loop settles and
  never completes normally, so the statement after the loop is not reached: the loop is
  left by the \<^verbatim>\<open>return\<close> of a value of the operation, by the \<^verbatim>\<open>throw\<close> of the
  retry-exhausted NetworkError at attempt \<open>n\<close>, or by the \<^verbatim>\<open>TypeError\<close> of reading the
  message of an \<^verbatim>\<open>undefined\<close> or \<^verbatim>\<open>null\<close> rejection; when the operation never rejects with
  those, only the first two remain. When \<open>1 \<le> maxRetries\<close> is false (a number below 1, or
  NaN) the loop body never runs, and the statement after the loop throws \<^verbatim>\<open>undefined\<close>,
  the initial value of \<^verbatim>\<open>lastError\<close>.
\<close>

theorem withRetry_fallthrough_unreachable:
  "(1 \<le> n \<longrightarrow>
      (\<exists>c le s' evs.
         withRetry_loop operation (Finite (of_int n)) baseDelay 1 Undefined s =
           Some (c, le, s', evs) \<and>
         c \<noteq> Normal \<and>
         ((\<exists>v. c = Return v) \<or>
          (c = Throw (FanError (NetworkError_new (ERROR_MESSAGES RETRY_EXHAUSTED))) \<and>
           last (attempts_of evs) = n) \<or>
          (\<exists>t ty. fst (operation t) = Inl le \<and> message_access_error le = Some ty \<and>
             c = Throw ty)))) \<and>
   (1 \<le> n \<and> (\<forall>t. fst (operation t) \<noteq> Inl Undefined \<and> fst (operation t) \<noteq> Inl Null) \<longrightarrow>
      (\<exists>c le s' evs.
         withRetry_loop operation (Finite (of_int n)) baseDelay 1 Undefined s =
           Some (c, le, s', evs) \<and>
         ((\<exists>v. c = Return v) \<or>
          (c = Throw (FanError (NetworkError_new (ERROR_MESSAGES RETRY_EXHAUSTED))) \<and>
           last (attempts_of evs) = n)))) \<and>
   (\<not> int_le_number 1 maxRetries \<longrightarrow>
      withRetry_loop operation maxRetries baseDelay 1 Undefined s =
        Some (Normal, Undefined, s, []) \<and>
      withRetry operation maxRetries baseDelay s = Some (Inl Undefined, s, []))"
proof (intro conjI impI)
  assume n: "1 \<le> n"
  from loop_exits[OF n, of operation baseDelay Undefined s]
  show "\<exists>c le s' evs.
         withRetry_loop operation (Finite (of_int n)) baseDelay 1 Undefined s =
           Some (c, le, s', evs) \<and>
         c \<noteq> Normal \<and>
         ((\<exists>v. c = Return v) \<or>
          (c = Throw (FanError (NetworkError_new (ERROR_MESSAGES RETRY_EXHAUSTED))) \<and>
           last (attempts_of evs) = n) \<or>
          (\<exists>t ty. fst (operation t) = Inl le \<and> message_access_error le = Some ty \<and>
             c = Throw ty))"
    by (elim exE conjE disjE) auto
next
  assume h: "1 \<le> n \<and>
    (\<forall>t. fst (operation t) \<noteq> Inl Undefined \<and> fst (operation t) \<noteq> Inl Null)"
  then have n: "1 \<le> n" by simp
  from loop_exits[OF n, of operation baseDelay Undefined s]
  obtain c le s' evs where
    r: "withRetry_loop operation (Finite (of_int n)) baseDelay 1 Undefined s =
          Some (c, le, s', evs)"
    and d: "(\<exists>v. c = Return v) \<or>
        (c = Throw (FanError (NetworkError_new (ERROR_MESSAGES RETRY_EXHAUSTED))) \<and>
         last (attempts_of evs) = n \<and> attempts_of evs \<noteq> []) \<or>
        (\<exists>t ty. fst (operation t) = Inl le \<and> message_access_error le = Some ty \<and>
           c = Throw ty)"
    by blast
  have "\<not> (\<exists>t ty. fst (operation t) = Inl le \<and> message_access_error le = Some ty \<and>
      c = Throw ty)"
  proof
    assume "\<exists>t ty. fst (operation t) = Inl le \<and> message_access_error le = Some ty \<and>
      c = Throw ty"
    then obtain t ty where t: "fst (operation t) = Inl le" "message_access_error le = Some ty"
      by blast
    from t(2) have "le = Undefined \<or> le = Null" by (cases le) auto
    with t(1) h show False by auto
  qed
  with r d show "\<exists>c le s' evs.
         withRetry_loop operation (Finite (of_int n)) baseDelay 1 Undefined s =
           Some (c, le, s', evs) \<and>
         ((\<exists>v. c = Return v) \<or>
          (c = Throw (FanError (NetworkError_new (ERROR_MESSAGES RETRY_EXHAUSTED))) \<and>
           last (attempts_of evs) = n))"
    by blast
next
  assume m: "\<not> int_le_number 1 maxRetries"
  show "withRetry_loop operation maxRetries baseDelay 1 Undefined s =
      Some (Normal, Undefined, s, [])"
    by (rule loop_falls_through[OF m])
  then show "withRetry operation maxRetries baseDelay s = Some (Inl Undefined, s, [])"
    by (simp add: withRetry_def)
qed

theorem withRetry_fallthrough_unreachable_witness:
  "(\<exists>c le s' evs.
      withRetry_loop always_failing (Finite 3) 100 1 Undefined 0 = Some (c, le, s', evs) \<and>
      ((\<exists>v. c = Return v) \<or>
       (c = Throw (FanError (NetworkError_new (ERROR_MESSAGES RETRY_EXHAUSTED))) \<and>
        last (attempts_of evs) = 3))) \<and>
   withRetry always_failing (Finite 0) 100 0 = Some (Inl Undefined, 0, []) \<and>
   withRetry always_failing NaN 100 0 = Some (Inl Undefined, 0, [])"
proof -
  have h: "1 \<le> (3::int) \<and>
      (\<forall>t. fst (always_failing t) \<noteq> Inl Undefined \<and> fst (always_failing t) \<noteq> Inl Null)"
    by (simp add: always_failing_def)
  have a: "\<exists>c le s' evs.
      withRetry_loop always_failing (Finite 3) 100 1 Undefined 0 = Some (c, le, s', evs) \<and>
      ((\<exists>v. c = Return v) \<or>
       (c = Throw (FanError (NetworkError_new (ERROR_MESSAGES RETRY_EXHAUSTED))) \<and>
        last (attempts_of evs) = 3))"
    using withRetry_fallthrough_unreachable[of 3 always_failing 100 0 NaN,
        THEN conjunct2, THEN conjunct1, rule_format, OF h]
    by simp
  have b: "withRetry always_failing (Finite 0) 100 0 = Some (Inl Undefined, 0, [])"
    using withRetry_fallthrough_unreachable[of 3 always_failing 100 0 "Finite 0"] by simp
  have c: "withRetry always_failing NaN 100 0 = Some (Inl Undefined, 0, [])"
    using withRetry_fallthrough_unreachable[of 3 always_failing 100 0 NaN] by simp
  from a b c show ?thesis by blast
qed

text \<open>
  Claim C10 as stated fails at \<open>maxRetries = 2.5\<close>, which is not below 1: after two failed
  attempts and two waits the loop completes normally, and the statement after the loop
  throws the error of the second attempt. It also fails at \<open>maxRetries = 1\<close> for an operation
  rejecting with \<^verbatim>\<open>undefined\<close>: the loop is left by a \<^verbatim>\<open>TypeError\<close>, neither the value nor
  the exhaustion error.
\<close>

theorem withRetry_fractional_counterexample:
  "int_le_number 1 (Finite (5 / 2)) \<and>
   withRetry_loop always_failing (Finite (5 / 2)) 100 1 Undefined 0 =
     Some (Normal, FanError (NetworkError_new ''Operation timed out''), 2,
           [Attempt 1, Delay 100, Attempt 2, Delay 200]) \<and>
   withRetry always_failing (Finite (5 / 2)) 100 0 =
     Some (Inl (FanError (NetworkError_new ''Operation timed out'')), 2,
           [Attempt 1, Delay 100, Attempt 2, Delay 200]) \<and>
   withRetry_loop rejects_undefined (Finite 1) 100 1 Undefined 0 =
     Some (Throw (ForeignError ''Cannot read properties of undefined (reading 'message')''),
           Undefined, 1, [Attempt 1])"
proof -
  have l: "withRetry_loop always_failing (Finite (5 / 2)) 100 1 Undefined 0 =
     Some (Normal, FanError (NetworkError_new ''Operation timed out''), 2,
           [Attempt 1, Delay 100, Attempt 2, Delay 200])"
    by (simp add: withRetry_loop.simps[of always_failing "Finite (5 / 2)" 100]
        always_failing_def NetworkError_new_def Math_pow_def)
  have u: "withRetry_loop rejects_undefined (Finite 1) 100 1 Undefined 0 =
     Some (Throw (ForeignError ''Cannot read properties of undefined (reading 'message')''),
           Undefined, 1, [Attempt 1])"
    by (simp add: withRetry_loop.simps[of rejects_undefined "Finite 1" 100 1]
        rejects_undefined_def)
  from l u show ?thesis by (simp add: withRetry_def)
qed

section \<open>Properties of the validators\<close>

lemma isInteger_of_int: "Number_isInteger (Finite (of_int x))"
  by simp

lemma validateFanSpeed_in_range:
  "1 \<le> x \<Longrightarrow> x \<le> 6 \<Longrightarrow>
   validateFanSpeed (JNumber (Finite (of_int x))) = Inr (Finite (of_int x))"
  by (simp add: validateFanSpeed_def fanSpeedSchema_def z_number_def z_int_def z_min_def
      z_max_def parse_def)

lemma validateFanSpeed_out_of_range:
  "x < 1 \<or> 6 < x \<Longrightarrow>
   validateFanSpeed (JNumber (Finite (of_int x))) =
     Inl (FanError (ValidationError_new (ERROR_MESSAGES INVALID_SPEED)))"
  by (auto simp: validateFanSpeed_def fanSpeedSchema_def z_number_def z_int_def z_min_def
      z_max_def parse_def)

lemma validateFanSpeed_not_integer:
  assumes "\<forall>x::int. v \<noteq> JNumber (Finite (of_int x))"
  shows "\<exists>msg. validateFanSpeed v = Inl (FanError (ValidationError_new msg)) \<and>
           msg \<in> {''Required'', ''Expected integer, received float'',
                  ''Expected number, received '' @ getParsedType v}"
proof (cases v)
  case (JNumber x)
  show ?thesis
  proof (cases x)
    case (Finite r)
    with JNumber assms have "of_int \<lfloor>r\<rfloor> \<noteq> r" by metis
    with JNumber Finite show ?thesis
      by (auto simp: validateFanSpeed_def fanSpeedSchema_def z_number_def z_int_def z_min_def
          z_max_def parse_def)
  qed (auto simp: JNumber validateFanSpeed_def fanSpeedSchema_def z_number_def z_int_def
      z_min_def z_max_def parse_def invalid_type_def)
qed (auto simp: validateFanSpeed_def fanSpeedSchema_def z_number_def parse_def
    invalid_type_def)

text \<open>
  Claim C5, as amended. For an integer \<open>x\<close> in 1..6 \<^verbatim>\<open>validateFanSpeed\<close> returns \<open>x\<close>
  unchanged. For an integer outside 1..6 it throws a ValidationError with the speed-range
  message. For every other input it throws a ValidationError too, but with the message
  of the schema's type test or integer check, not the speed-range message.
\<close>

theorem validateFanSpeed_result:
  "(1 \<le> x \<and> x \<le> 6 \<longrightarrow>
      validateFanSpeed (JNumber (Finite (of_int x))) = Inr (Finite (of_int x))) \<and>
   (x < 1 \<or> 6 < x \<longrightarrow>
      validateFanSpeed (JNumber (Finite (of_int x))) =
        Inl (FanError (ValidationError_new ''Fan speed must be between 1 and 6''))) \<and>
   ((\<forall>y::int. v \<noteq> JNumber (Finite (of_int y))) \<longrightarrow>
      (\<exists>msg. validateFanSpeed v = Inl (FanError (ValidationError_new msg)) \<and>
         msg \<in> {''Required'', ''Expected integer, received float'',
                ''Expected number, received '' @ getParsedType v}))"
  using validateFanSpeed_in_range[of x] validateFanSpeed_out_of_range[of x]
    validateFanSpeed_not_integer[of v]
  by simp

theorem validateFanSpeed_result_witness:
  "validateFanSpeed (JNumber (Finite 3)) = Inr (Finite 3) \<and>
   validateFanSpeed (JNumber (Finite 7)) =
     Inl (FanError (ValidationError_new ''Fan speed must be between 1 and 6'')) \<and>
   (\<exists>msg. validateFanSpeed (JString ''fast'') = Inl (FanError (ValidationError_new msg)) \<and>
      msg \<in> {''Required'', ''Expected integer, received float'',
             ''Expected number, received string''})"
  using validateFanSpeed_result[of 3 "JString ''fast''"]
    validateFanSpeed_result[of 7 "JString ''fast''"]
  by simp

text \<open>
  Claim C5 as stated fails at 2.5 and at the string "3": the error carries the message of
  the integer check, or of the type test, and not the speed-range message.
\<close>

theorem validateFanSpeed_noninteger_counterexample:
  "validateFanSpeed (JNumber (Finite (5 / 2))) =
     Inl (FanError (ValidationError_new ''Expected integer, received float'')) \<and>
   validateFanSpeed (JNumber (Finite (5 / 2))) \<noteq>
     Inl (FanError (ValidationError_new (ERROR_MESSAGES INVALID_SPEED))) \<and>
   validateFanSpeed (JString ''3'') =
     Inl (FanError (ValidationError_new ''Expected number, received string''))"
  by (simp add: validateFanSpeed_def fanSpeedSchema_def z_number_def z_int_def z_min_def
      z_max_def parse_def invalid_type_def ValidationError_new_def)

lemma validateIpAddress_result:
  "(validateIpAddress v = Inr s) =
     (v = JString s \<and> (regex_test ipv4Regex s \<or> regex_test ipv6Regex s) \<and> s \<noteq> ''0.0.0.0'')"
  by (cases v)
     (auto simp: validateIpAddress_def ipAddressSchema_def z_refine_def z_string_def z_ip_def
        isValidIP_def parse_def)

lemma ipv4_zero: "regex_test ipv4Regex ''0.0.0.0''"
  by code_simp

lemma ipv4_sample: "regex_test ipv4Regex ''192.168.1.13''"
  by code_simp

lemma ipv6_loopback: "regex_test ipv6Regex ''::1''"
  by code_simp

lemma ipv4_not_loopback6: "\<not> regex_test ipv4Regex ''::1''"
  by code_simp

lemma validateIpAddress_sample:
  "validateIpAddress (JString ''192.168.1.13'') = Inr ''192.168.1.13''"
  using ipv4_sample by (simp add: validateIpAddress_result)

lemma validateIpAddress_zero:
  "validateIpAddress (JString ''0.0.0.0'') =
     Inl (FanError (ValidationError_new ''IP address cannot be 0.0.0.0''))"
  using ipv4_zero
  by (simp add: validateIpAddress_def ipAddressSchema_def z_refine_def z_string_def z_ip_def
      isValidIP_def parse_def)

text \<open>
  Claim C6. The claim says that \<^verbatim>\<open>validateIpAddress\<close> fails on every input that does not
  parse as IPv4. The code does not: the schema calls the library's IP check with no
  version, which also accepts IPv6, so the validator returns the IPv6 loopback address
  "::1", a string that the IPv4 expression rejects.
\<close>

theorem validateIpAddress_accepts_ipv6:
  "validateIpAddress (JString ''::1'') = Inr ''::1'' \<and> \<not> regex_test ipv4Regex ''::1''"
  using ipv6_loopback ipv4_not_loopback6
  by (simp add: validateIpAddress_def ipAddressSchema_def z_refine_def z_string_def z_ip_def
      isValidIP_def parse_def)

section \<open>Properties of the service\<close>

lemma send_attempt_state:
  "snd (send_attempt cfg net ms w) = w\<lparr>sends := sends w @ [dgram_of cfg ms]\<rparr>"
  by (simp add: send_attempt_def dgram_of_def Let_def split: send_outcome.splits option.splits)

lemma send_attempt_ok:
  "net (length (sends w)) = Callback None \<Longrightarrow>
   send_attempt cfg net ms w = (Inr (), w\<lparr>sends := sends w @ [dgram_of cfg ms]\<rparr>)"
  by (simp add: send_attempt_def dgram_of_def Let_def)

lemma send_attempt_fails:
  assumes "net (length (sends w)) \<noteq> Callback None"
  shows "\<exists>e. send_attempt cfg net ms w = (Inl e, w\<lparr>sends := sends w @ [dgram_of cfg ms]\<rparr>) \<and>
           message_access_error e = None"
  using assms
  by (cases "net (length (sends w))")
     (auto simp: send_attempt_def dgram_of_def Let_def NetworkError_new_def
        split: option.splits)

text \<open>
  The loop on the send operation, from any counter: it settles; it sends \<open>sends_made\<close>
  datagrams; it returns when one of them gets through and throws the exhaustion error
  otherwise.
\<close>

lemma send_loop:
  "\<exists>le evs.
     withRetry_loop (send_attempt cfg net ms) (Finite (of_int n)) b a le0 w =
       Some (if n < a then Normal
             else if \<exists>j < nat (n - a + 1). net (length (sends w) + j) = Callback None
               then Return ()
               else Throw (FanError (NetworkError_new (ERROR_MESSAGES RETRY_EXHAUSTED))),
             le,
             w\<lparr>sends := sends w @
                 replicate (sends_made net (length (sends w)) (nat (n - a + 1)))
                   (dgram_of cfg ms)\<rparr>,
             evs)"
proof (induction "nat (n - a + 1)" arbitrary: a w le0)
  case 0
  then have "n < a" by linarith
  then show ?case
    using 0 by (simp add: withRetry_loop.simps[of _ "Finite (of_int n)" b a])
next
  case (Suc m)
  then have an: "a \<le> n" by linarith
  have cnt: "nat (n - a + 1) = Suc m" using Suc.hyps(2) by simp
  show ?case
  proof (cases "net (length (sends w)) = Callback None")
    case True
    then have ex: "\<exists>j < Suc m. net (length (sends w) + j) = Callback None"
      by (intro exI[of _ 0]) simp
    show ?thesis
      using an True ex send_attempt_ok[of net w cfg ms, OF True]
      by (simp add: withRetry_loop.simps[of _ "Finite (of_int n)" b a] cnt)
  next
    case False
    from send_attempt_fails[of net w cfg ms, OF False]
    obtain e where os: "send_attempt cfg net ms w =
        (Inl e, w\<lparr>sends := sends w @ [dgram_of cfg ms]\<rparr>)"
      and rd: "message_access_error e = None"
      by blast
    let ?w' = "w\<lparr>sends := sends w @ [dgram_of cfg ms]\<rparr>"
    show ?thesis
    proof (cases "a = n")
      case True
      then have m0: "m = 0" using cnt by simp
      have nex: "\<not> (\<exists>j < Suc 0. net (length (sends w) + j) = Callback None)"
        using False by simp
      show ?thesis
        using True os rd False nex
        by (simp add: withRetry_loop.simps[of _ "Finite (of_int n)" b n] cnt m0)
    next
      case ne: False
      then have lt: "a < n" using an by simp
      have m: "m = nat (n - (a + 1) + 1)" using cnt lt by linarith
      from Suc.hyps(1)[OF m, of e ?w']
      obtain le evs where rec:
        "withRetry_loop (send_attempt cfg net ms) (Finite (of_int n)) b (a + 1) e ?w' =
           Some (if n < a + 1 then Normal
                 else if \<exists>j < nat (n - (a + 1) + 1).
                           net (length (sends ?w') + j) = Callback None
                   then Return ()
                   else Throw (FanError (NetworkError_new (ERROR_MESSAGES RETRY_EXHAUSTED))),
                 le,
                 ?w'\<lparr>sends := sends ?w' @
                     replicate (sends_made net (length (sends ?w')) (nat (n - (a + 1) + 1)))
                       (dgram_of cfg ms)\<rparr>,
                 evs)"
        by blast
      have shift: "(\<exists>j < Suc m. net (length (sends w) + j) = Callback None) =
          (\<exists>j < m. net (Suc (length (sends w)) + j) = Callback None)"
        using False by (simp add: Ex_less_Suc2)
      have m2: "nat (n - a) = m" using cnt lt by linarith
      show ?thesis
        using lt ne os rd rec False shift
        by (simp add: withRetry_loop.simps[of _ "Finite (of_int n)" b a] cnt m2
            replicate_app_Cons_same)
    qed
  qed
qed

lemma gets_through_iff:
  "1 \<le> UDP_RETRY_ATTEMPTS cfg \<Longrightarrow>
   gets_through cfg net w =
     (\<exists>j < nat (UDP_RETRY_ATTEMPTS cfg - 1 + 1). net (length (sends w) + j) = Callback None)"
  by (simp add: gets_through_def)

lemma sendUdpMessage_result:
  assumes "1 \<le> UDP_RETRY_ATTEMPTS cfg"
  shows "fst (sendUdpMessage cfg net m w) =
     (if gets_through cfg net w then Inr ()
      else Inl (FanError (NetworkError_new (ERROR_MESSAGES RETRY_EXHAUSTED))))"
proof -
  from send_loop[of cfg net "JSON_stringify m" "UDP_RETRY_ATTEMPTS cfg" 100 1 Undefined w]
  obtain le evs where
    "withRetry_loop (send_attempt cfg net (JSON_stringify m))
       (Finite (of_int (UDP_RETRY_ATTEMPTS cfg))) 100 1 Undefined w =
       Some (if UDP_RETRY_ATTEMPTS cfg < 1 then Normal
             else if \<exists>j < nat (UDP_RETRY_ATTEMPTS cfg - 1 + 1).
                       net (length (sends w) + j) = Callback None
               then Return ()
               else Throw (FanError (NetworkError_new (ERROR_MESSAGES RETRY_EXHAUSTED))),
             le,
             w\<lparr>sends := sends w @
                 replicate (sends_made net (length (sends w))
                     (nat (UDP_RETRY_ATTEMPTS cfg - 1 + 1)))
                   (dgram_of cfg (JSON_stringify m))\<rparr>,
             evs)"
    by blast
  then show ?thesis
    using assms by (simp add: sendUdpMessage_def withRetry_def gets_through_def)
qed

lemma sendUdpMessage_sends:
  "sends (snd (sendUdpMessage cfg net m w)) =
     sends w @
     replicate (sends_made net (length (sends w)) (nat (UDP_RETRY_ATTEMPTS cfg)))
       (dgram_of cfg (JSON_stringify m))"
proof -
  from send_loop[of cfg net "JSON_stringify m" "UDP_RETRY_ATTEMPTS cfg" 100 1 Undefined w]
  obtain le evs where
    "withRetry_loop (send_attempt cfg net (JSON_stringify m))
       (Finite (of_int (UDP_RETRY_ATTEMPTS cfg))) 100 1 Undefined w =
       Some (if UDP_RETRY_ATTEMPTS cfg < 1 then Normal
             else if \<exists>j < nat (UDP_RETRY_ATTEMPTS cfg - 1 + 1).
                       net (length (sends w) + j) = Callback None
               then Return ()
               else Throw (FanError (NetworkError_new (ERROR_MESSAGES RETRY_EXHAUSTED))),
             le,
             w\<lparr>sends := sends w @
                 replicate (sends_made net (length (sends w))
                     (nat (UDP_RETRY_ATTEMPTS cfg - 1 + 1)))
                   (dgram_of cfg (JSON_stringify m))\<rparr>,
             evs)"
    by blast
  then show ?thesis
    by (simp add: sendUdpMessage_def withRetry_def)
qed

lemma sends_made_bounds: "sends_made net i m \<le> m \<and> (0 < m \<longrightarrow> 1 \<le> sends_made net i m)"
  by (induction m arbitrary: i) auto

lemma checkFanHealth_of_send:
  "fst (checkFanHealth cfg net w) =
     Inr (case fst (sendUdpMessage cfg net \<lparr>led = Some False, power = None, speed = None\<rparr> w) of
            Inr u \<Rightarrow> \<lparr>status = healthy, details = ''Fan is responding to UDP messages''\<rparr>
          | Inl error \<Rightarrow>
              \<lparr>status = unhealthy, details = ''Fan is not responding: '' @ error_text error\<rparr>)"
  by (simp add: checkFanHealth_def split: prod.splits sum.splits)

lemma checkFanHealth_by_network:
  assumes "1 \<le> UDP_RETRY_ATTEMPTS cfg"
  shows "fst (checkFanHealth cfg net w) =
     Inr (if gets_through cfg net w
          then \<lparr>status = healthy, details = ''Fan is responding to UDP messages''\<rparr>
          else \<lparr>status = unhealthy,
                details = ''Fan is not responding: Maximum retry attempts exceeded''\<rparr>)"
  by (simp add: checkFanHealth_of_send sendUdpMessage_result[OF assms] NetworkError_new_def)

text \<open>
  Claim C3. \<^verbatim>\<open>checkFanHealth\<close> never throws: whatever the configuration, the network and
  the state, it returns a status value. When the probe send succeeds the status is
  healthy; when the send path throws, the status is unhealthy and the detail is the text
  of what was thrown. With at least one attempt configured, the status is healthy exactly
  when one of the attempts gets through, and the only failure that arrives is the
  exhaustion of the retries.
\<close>

theorem checkFanHealth_never_raises:
  "(\<exists>h. fst (checkFanHealth cfg net w) = Inr h) \<and>
   fst (checkFanHealth cfg net w) =
     Inr (case fst (sendUdpMessage cfg net \<lparr>led = Some False, power = None, speed = None\<rparr> w) of
            Inr u \<Rightarrow> \<lparr>status = healthy, details = ''Fan is responding to UDP messages''\<rparr>
          | Inl error \<Rightarrow>
              \<lparr>status = unhealthy, details = ''Fan is not responding: '' @ error_text error\<rparr>) \<and>
   (1 \<le> UDP_RETRY_ATTEMPTS cfg \<longrightarrow>
      fst (checkFanHealth cfg net w) =
        Inr (if gets_through cfg net w
             then \<lparr>status = healthy, details = ''Fan is responding to UDP messages''\<rparr>
             else \<lparr>status = unhealthy,
                   details = ''Fan is not responding: Maximum retry attempts exceeded''\<rparr>))"
  using checkFanHealth_of_send[of cfg net w] checkFanHealth_by_network[of cfg net w]
  by simp

lemma gets_through_ok: "gets_through default_config net_ok no_sends"
  unfolding gets_through_def by (rule exI[of _ 0]) (simp add: default_config_def net_ok_def)

lemma default_attempts: "1 \<le> UDP_RETRY_ATTEMPTS default_config"
  by (simp add: default_config_def)

lemma gets_through_timeout: "\<not> gets_through default_config net_timeout no_sends"
  by (simp add: gets_through_def net_timeout_def)

lemma gets_through_unreachable: "\<not> gets_through default_config net_unreachable no_sends"
  by (simp add: gets_through_def net_unreachable_def)

theorem checkFanHealth_never_raises_witness:
  "fst (checkFanHealth default_config net_ok no_sends) =
     Inr \<lparr>status = healthy, details = ''Fan is responding to UDP messages''\<rparr> \<and>
   fst (checkFanHealth default_config net_unreachable no_sends) =
     Inr \<lparr>status = unhealthy,
          details = ''Fan is not responding: Maximum retry attempts exceeded''\<rparr>"
  using checkFanHealth_never_raises[of default_config net_ok no_sends,
      THEN conjunct2, THEN conjunct2, rule_format, OF default_attempts]
    checkFanHealth_never_raises[of default_config net_unreachable no_sends,
      THEN conjunct2, THEN conjunct2, rule_format, OF default_attempts]
    gets_through_ok gets_through_unreachable
  by simp

text \<open>
  Claim C7, as amended. When every attempt of the health check times out,
  \<^verbatim>\<open>checkFanHealth\<close> does not throw and returns the status unhealthy with the detail
  "Fan is not responding: Maximum retry attempts exceeded": the message of the generic
  exhaustion error, which does not mention the timeout.
\<close>

theorem checkFanHealth_all_timeouts:
  assumes "1 \<le> UDP_RETRY_ATTEMPTS cfg"
    and "\<forall>j < nat (UDP_RETRY_ATTEMPTS cfg). net (length (sends w) + j) = TimerFirst"
  shows "fst (checkFanHealth cfg net w) =
           Inr \<lparr>status = unhealthy,
                details = ''Fan is not responding: Maximum retry attempts exceeded''\<rparr>"
proof -
  from assms(2) have "\<not> gets_through cfg net w" by (auto simp: gets_through_def)
  with checkFanHealth_by_network[OF assms(1), of net w] show ?thesis by simp
qed

theorem checkFanHealth_all_timeouts_witness:
  "fst (checkFanHealth default_config net_timeout no_sends) =
     Inr \<lparr>status = unhealthy,
          details = ''Fan is not responding: Maximum retry attempts exceeded''\<rparr>"
  using checkFanHealth_all_timeouts[of default_config net_timeout no_sends] default_attempts
  by (simp add: net_timeout_def)

text \<open>
  Claim C7 as stated fails with the default configuration and a network on which every
  send times out: the detail does not contain "timed out", and it is the very detail
  returned when every send fails with an error instead.
\<close>

theorem checkFanHealth_timeout_counterexample:
  "fst (checkFanHealth default_config net_timeout no_sends) =
     Inr \<lparr>status = unhealthy,
          details = ''Fan is not responding: Maximum retry attempts exceeded''\<rparr> \<and>
   \<not> String_includes ''Fan is not responding: Maximum retry attempts exceeded'' ''timed out'' \<and>
   fst (checkFanHealth default_config net_timeout no_sends) =
     fst (checkFanHealth default_config net_unreachable no_sends)"
proof -
  have n: "1 \<le> UDP_RETRY_ATTEMPTS default_config" by (simp add: default_config_def)
  have t: "fst (checkFanHealth default_config net_timeout no_sends) =
     Inr \<lparr>status = unhealthy,
          details = ''Fan is not responding: Maximum retry attempts exceeded''\<rparr>"
    using checkFanHealth_by_network[OF n, of net_timeout no_sends] gets_through_timeout by simp
  have u: "fst (checkFanHealth default_config net_unreachable no_sends) =
     Inr \<lparr>status = unhealthy,
          details = ''Fan is not responding: Maximum retry attempts exceeded''\<rparr>"
    using checkFanHealth_by_network[OF n, of net_unreachable no_sends] gets_through_unreachable
    by simp
  have i: "\<not> String_includes ''Fan is not responding: Maximum retry attempts exceeded''
      ''timed out''"
    by simp
  from t u i show ?thesis by simp
qed

text \<open>
  Claim C4. For every argument that is not an integer in 1..6, \<^verbatim>\<open>setFanSpeed\<close> throws
  the ValidationError of the validator and leaves the state as it was: \<^verbatim>\<open>client.send\<close>
  is not called and nothing is retried.
\<close>

theorem setFanSpeed_invalid_no_send:
  assumes "\<forall>n::int. 1 \<le> n \<and> n \<le> 6 \<longrightarrow> speed_arg \<noteq> JNumber (Finite (of_int n))"
  shows "\<exists>msg. validateFanSpeed speed_arg = Inl (FanError (ValidationError_new msg)) \<and>
           instanceof_ValidationError (FanError (ValidationError_new msg)) \<and>
           setFanSpeed cfg net speed_arg w = (Inl (FanError (ValidationError_new msg)), w) \<and>
           sends (snd (setFanSpeed cfg net speed_arg w)) = sends w"
proof -
  have "\<exists>msg. validateFanSpeed speed_arg = Inl (FanError (ValidationError_new msg))"
  proof (cases "\<exists>x::int. speed_arg = JNumber (Finite (of_int x))")
    case True
    then obtain x :: int where x: "speed_arg = JNumber (Finite (of_int x))" by blast
    with assms have "\<not> (1 \<le> x \<and> x \<le> 6)" by blast
    then have "x < 1 \<or> 6 < x" by linarith
    from validateFanSpeed_out_of_range[OF this] x show ?thesis by blast
  next
    case False
    then have "\<forall>x::int. speed_arg \<noteq> JNumber (Finite (of_int x))" by simp
    from validateFanSpeed_not_integer[OF this] show ?thesis by blast
  qed
  then obtain msg where m: "validateFanSpeed speed_arg = Inl (FanError (ValidationError_new msg))"
    by blast
  then show ?thesis
    by (intro exI[of _ msg]) (simp add: setFanSpeed_def ValidationError_new_def)
qed

theorem setFanSpeed_invalid_no_send_witness:
  "\<exists>msg. validateFanSpeed (JNumber (Finite 7)) = Inl (FanError (ValidationError_new msg)) \<and>
     instanceof_ValidationError (FanError (ValidationError_new msg)) \<and>
     setFanSpeed default_config net_ok (JNumber (Finite 7)) no_sends =
       (Inl (FanError (ValidationError_new msg)), no_sends) \<and>
     sends (snd (setFanSpeed default_config net_ok (JNumber (Finite 7)) no_sends)) = []"
proof -
  have h: "\<forall>n::int. 1 \<le> n \<and> n \<le> 6 \<longrightarrow> JNumber (Finite 7) \<noteq> JNumber (Finite (of_int n))"
    by auto
  from setFanSpeed_invalid_no_send[OF h, of default_config net_ok no_sends]
  show ?thesis by (simp add: no_sends_def)
qed

text \<open>
  Claim C9. \<^verbatim>\<open>cleanup\<close> returns without throwing whatever \<^verbatim>\<open>client.close()\<close> does, so
  a second call right after the first returns too; with Node's socket, the first call
  closes it and the second catches the "Not running" error.
\<close>

theorem cleanup_twice:
  "fst (cleanup client_close c) = Inr () \<and>
   fst (cleanup client_close (snd (cleanup client_close c))) = Inr () \<and>
   cleanup dgram_close Open = (Inr (), Closed) \<and>
   cleanup dgram_close (snd (cleanup dgram_close Open)) = (Inr (), Closed)"
proof -
  have a: "fst (cleanup f x) = Inr ()" for f :: "'c \<Rightarrow> (thrown + unit) \<times> 'c" and x
    by (simp add: cleanup_def split: prod.splits sum.splits)
  show ?thesis by (simp add: a) (simp add: cleanup_def)
qed

lemma facade_states:
  "snd (turnOnLed cfg net w) =
     snd (sendUdpMessage cfg net \<lparr>led = Some True, power = None, speed = None\<rparr> w)"
  "snd (turnOffLed cfg net w) =
     snd (sendUdpMessage cfg net \<lparr>led = Some False, power = None, speed = None\<rparr> w)"
  "snd (turnOnFan cfg net w) =
     snd (sendUdpMessage cfg net \<lparr>led = None, power = Some True, speed = None\<rparr> w)"
  "snd (turnOffFan cfg net w) =
     snd (sendUdpMessage cfg net \<lparr>led = None, power = Some False, speed = None\<rparr> w)"
  by (simp_all add: turnOnLed_def turnOffLed_def turnOnFan_def turnOffFan_def
      split: prod.splits sum.splits)

lemma setFanSpeed_valid_state:
  "1 \<le> n \<Longrightarrow> n \<le> 6 \<Longrightarrow>
   snd (setFanSpeed cfg net (JNumber (Finite (of_int n))) w) =
     snd (sendUdpMessage cfg net
       \<lparr>led = None, power = None, speed = Some (Finite (of_int n))\<rparr> w)"
  by (simp add: setFanSpeed_def validateFanSpeed_in_range split: prod.splits sum.splits)

lemma stringify_fields:
  "JSON_stringify \<lparr>led = Some b, power = None, speed = None\<rparr> = [(''led'', JsonBool b)]"
  "JSON_stringify \<lparr>led = None, power = Some b, speed = None\<rparr> = [(''power'', JsonBool b)]"
  "JSON_stringify \<lparr>led = None, power = None, speed = Some (Finite r)\<rparr> =
     [(''speed'', JsonNumber r)]"
  by (simp_all add: JSON_stringify_def)

text \<open>
  Claim C8. The message of each command is written with exactly one member: \<open>led\<close> for
  the LED commands, \<open>power\<close> for the power commands, \<open>speed\<close> with the number for a speed
  in 1..6; the other fields have no member. Each command hands to the socket exactly
  \<open>sends_made\<close> datagrams, all with that payload, whatever the configuration, the network
  and the earlier sends; with at least one attempt configured that is at least one
  datagram and at most one for each attempt.
\<close>

theorem encode_one_field:
  "sends (snd (turnOnLed cfg net w)) =
     sends w @
     replicate (sends_made net (length (sends w)) (nat (UDP_RETRY_ATTEMPTS cfg)))
       \<lparr>payload = [(''led'', JsonBool True)], port = FAN_PORT cfg, address = FAN_IP cfg\<rparr> \<and>
   sends (snd (turnOffLed cfg net w)) =
     sends w @
     replicate (sends_made net (length (sends w)) (nat (UDP_RETRY_ATTEMPTS cfg)))
       \<lparr>payload = [(''led'', JsonBool False)], port = FAN_PORT cfg, address = FAN_IP cfg\<rparr> \<and>
   sends (snd (turnOnFan cfg net w)) =
     sends w @
     replicate (sends_made net (length (sends w)) (nat (UDP_RETRY_ATTEMPTS cfg)))
       \<lparr>payload = [(''power'', JsonBool True)], port = FAN_PORT cfg, address = FAN_IP cfg\<rparr> \<and>
   sends (snd (turnOffFan cfg net w)) =
     sends w @
     replicate (sends_made net (length (sends w)) (nat (UDP_RETRY_ATTEMPTS cfg)))
       \<lparr>payload = [(''power'', JsonBool False)], port = FAN_PORT cfg, address = FAN_IP cfg\<rparr> \<and>
   (1 \<le> n \<and> n \<le> 6 \<longrightarrow>
      sends (snd (setFanSpeed cfg net (JNumber (Finite (of_int n))) w)) =
        sends w @
        replicate (sends_made net (length (sends w)) (nat (UDP_RETRY_ATTEMPTS cfg)))
          \<lparr>payload = [(''speed'', JsonNumber (of_int n))], port = FAN_PORT cfg,
           address = FAN_IP cfg\<rparr>) \<and>
   (1 \<le> UDP_RETRY_ATTEMPTS cfg \<longrightarrow>
      1 \<le> sends_made net (length (sends w)) (nat (UDP_RETRY_ATTEMPTS cfg)) \<and>
      sends_made net (length (sends w)) (nat (UDP_RETRY_ATTEMPTS cfg)) \<le>
        nat (UDP_RETRY_ATTEMPTS cfg))"
proof (intro conjI impI)
  assume n: "1 \<le> n \<and> n \<le> 6"
  then show "sends (snd (setFanSpeed cfg net (JNumber (Finite (of_int n))) w)) =
      sends w @
      replicate (sends_made net (length (sends w)) (nat (UDP_RETRY_ATTEMPTS cfg)))
        \<lparr>payload = [(''speed'', JsonNumber (of_int n))], port = FAN_PORT cfg,
         address = FAN_IP cfg\<rparr>"
    by (simp add: setFanSpeed_valid_state sendUdpMessage_sends stringify_fields dgram_of_def)
next
  assume "1 \<le> UDP_RETRY_ATTEMPTS cfg"
  then have "0 < nat (UDP_RETRY_ATTEMPTS cfg)" by simp
  with sends_made_bounds[of net "length (sends w)" "nat (UDP_RETRY_ATTEMPTS cfg)"]
  show "1 \<le> sends_made net (length (sends w)) (nat (UDP_RETRY_ATTEMPTS cfg))"
    and "sends_made net (length (sends w)) (nat (UDP_RETRY_ATTEMPTS cfg)) \<le>
      nat (UDP_RETRY_ATTEMPTS cfg)"
    by simp_all
qed (simp_all add: facade_states sendUdpMessage_sends stringify_fields dgram_of_def)

theorem encode_one_field_witness:
  "sends (snd (setFanSpeed default_config net_ok (JNumber (Finite 4)) no_sends)) =
     [\<lparr>payload = [(''speed'', JsonNumber 4)], port = 5600, address = ''192.168.1.13''\<rparr>] \<and>
   sends (snd (turnOnLed default_config net_timeout no_sends)) =
     replicate 3
       \<lparr>payload = [(''led'', JsonBool True)], port = 5600, address = ''192.168.1.13''\<rparr>"
proof -
  have a: "sends_made net_ok 0 3 = 1"
    by (simp add: eval_nat_numeral net_ok_def)
  have b: "sends_made net_timeout 0 3 = 3"
    by (simp add: eval_nat_numeral net_timeout_def)
  have c: "UDP_RETRY_ATTEMPTS default_config = 3" "FAN_PORT default_config = 5600"
    "FAN_IP default_config = ''192.168.1.13''"
    by (simp_all add: default_config_def)
  show ?thesis
    using encode_one_field[of default_config net_ok no_sends 4]
      encode_one_field[of default_config net_timeout no_sends 4]
    by (simp add: a b c no_sends_def)
qed

end
